theory Spec2Isabelle
  imports Main
begin

section \<open>Admin accounts: registration, login and OTP confirmation\<close>

text \<open>
  A shallow embedding of the admin authentication controller (\<^verbatim>\<open>exports.register\<close>,
  \<^verbatim>\<open>exports.login\<close>, \<^verbatim>\<open>exports.verifyConfirm\<close>, \<^verbatim>\<open>exports.resendConfirmOtp\<close>) and of the
  Mongoose schema \<^verbatim>\<open>AdminSchema\<close> it works on.

  Each handler is a function from the collaborators it calls (a \<open>world\<close>), the \<^verbatim>\<open>admins\<close>
  collection and the request body to an \<open>outcome\<close>: the response sent (if any), the
  collection afterwards and the mails delivered. Strings are 8-bit character lists; a
  request field that is absent is read as the empty string (every validated field is
  rejected when empty, and Mongoose rejects an empty required string like a missing one).
  Reads of the collection are taken to succeed; writes and mail delivery may fail.
  The bookkeeping Mongoose adds by itself (\<^verbatim>\<open>createdAt\<close>, \<^verbatim>\<open>updatedAt\<close>, \<^verbatim>\<open>__v\<close>) depends on
  the wall clock and is not part of the model.
\<close>

subsection \<open>The document\<close>

text \<open>
  The paths of \<^verbatim>\<open>AdminSchema\<close>, in the order of the schema. \<open>id'\<close> is \<^verbatim>\<open>_id\<close> and \<open>image'\<close> is
  \<^verbatim>\<open>image\<close>; \<^verbatim>\<open>confirmOTP\<close> and \<^verbatim>\<open>image\<close> are not required and may be null.
\<close>

record admin =
  id' :: nat
  first_name :: string
  last_name :: string
  email_id :: string
  password :: string
  isConfirmed :: bool
  is_active :: bool
  confirmOTP :: "string option"
  otpTries :: nat
  status :: bool
  phone_number :: string
  image' :: "string option"
  designation :: string
  address :: string
  city :: string
  state :: string
  post_code :: string

text \<open>
  What \<^verbatim>\<open>new AdminModel({})\<close> holds before any path is given: the schema defaults
  (\<^verbatim>\<open>default: 1\<close> on a Boolean path is \<open>True\<close>, \<^verbatim>\<open>default: 0\<close> on \<^verbatim>\<open>otpTries\<close>), every other
  path unset.
\<close>

definition AdminSchema :: "nat \<Rightarrow> admin" where
  "AdminSchema oid =
     \<lparr> id' = oid, first_name = [], last_name = [], email_id = [], password = [],
       isConfirmed = True, is_active = True, confirmOTP = None, otpTries = 0,
       status = True, phone_number = [], image' = None, designation = [],
       address = [], city = [], state = [], post_code = [] \<rparr>"

text \<open>The \<^verbatim>\<open>required: true\<close> String paths, which Mongoose checks on every \<^verbatim>\<open>save\<close>.\<close>

definition required_paths :: "admin \<Rightarrow> bool" where
  "required_paths u \<longleftrightarrow>
     first_name u \<noteq> [] \<and> last_name u \<noteq> [] \<and> email_id u \<noteq> [] \<and> password u \<noteq> [] \<and>
     phone_number u \<noteq> [] \<and> designation u \<noteq> [] \<and> address u \<noteq> [] \<and> city u \<noteq> [] \<and>
     state u \<noteq> [] \<and> post_code u \<noteq> []"

text \<open>
  \<^verbatim>\<open>findOne\<close> returns the first document that matches the query; an update through
  \<^verbatim>\<open>findOneAndUpdate\<close> or through \<^verbatim>\<open>save\<close> of a loaded document rewrites the first document
  that matches and nothing else.
\<close>

definition findOne :: "(admin \<Rightarrow> bool) \<Rightarrow> admin list \<Rightarrow> admin option" where
  "findOne q docs = List.find q docs"

fun updateOne :: "(admin \<Rightarrow> bool) \<Rightarrow> (admin \<Rightarrow> admin) \<Rightarrow> admin list \<Rightarrow> admin list" where
  "updateOne q f [] = []"
| "updateOne q f (d # docs) = (if q d then f d # docs else d # updateOne q f docs)"

subsection \<open>Requests, responses and collaborators\<close>

type_synonym body = "string \<rightharpoonup> string"

definition body_field :: "body \<Rightarrow> string \<Rightarrow> string" where
  "body_field b k = (case b k of None \<Rightarrow> [] | Some v \<Rightarrow> v)"

datatype jvalue = JId nat | JString string

type_synonym jobject = "(string \<times> jvalue) list"

type_synonym verror = "string \<times> string"

text \<open>
  One constructor for each function of the \<^verbatim>\<open>apiResponse\<close> helper the handlers call, with
  the message and data they pass. A validation error is the pair of the field and the
  message.
\<close>

datatype response =
    successResponse string
  | successResponseWithData string jobject
  | ErrorResponse
  | validationErrorWithData string "verror list"
  | unauthorizedResponse string

record mail =
  mail_from :: string
  mail_to :: string
  mail_subject :: string
  mail_html :: string

record outcome =
  reply :: "response option"
  db :: "admin list"
  outbox :: "mail list"

text \<open>
  The collaborators of one request: the libraries (\<^verbatim>\<open>isEmail\<close> of validator.js, bcrypt,
  jsonwebtoken), the process configuration, the random source, the \<^verbatim>\<open>ObjectId\<close> a new
  document gets, and whether the mailer delivers and the store accepts a write.
\<close>

record world =
  isEmail :: "string \<Rightarrow> bool"
  bcrypt_hash :: "string \<Rightarrow> string"
  bcrypt_compare :: "string \<Rightarrow> string \<Rightarrow> bool"
  jwt_sign :: "jobject \<Rightarrow> string \<Rightarrow> string \<Rightarrow> string"
  JWT_SECRET :: string
  JWT_TIMEOUT_DURATION :: string
  confirmEmails_from :: string
  math_random :: nat
  object_id :: nat
  mailer_ok :: bool
  store_ok :: bool

subsection \<open>Validation chains\<close>

text \<open>
  The sanitizers and validators of validator.js that the chains use, on ASCII text:
  \<^verbatim>\<open>trim\<close> strips white space at both ends, \<^verbatim>\<open>escape\<close> replaces the markup
  characters by entities, \<^verbatim>\<open>isAlphanumeric\<close> accepts one or more letters and digits.
\<close>

definition is_space :: "char \<Rightarrow> bool" where
  "is_space c \<longleftrightarrow> c = CHR '' '' \<or> (9 \<le> (of_char c :: nat) \<and> (of_char c :: nat) \<le> 13)"

definition trim :: "string \<Rightarrow> string" where
  "trim s = rev (dropWhile is_space (rev (dropWhile is_space s)))"

definition escape_char :: "char \<Rightarrow> string" where
  "escape_char c =
     (if c = CHR ''&'' then ''&amp;''
      else if c = CHR 0x22 then ''&quot;''
      else if c = CHR 0x27 then ''&#x27;''
      else if c = CHR ''<'' then ''&lt;''
      else if c = CHR ''>'' then ''&gt;''
      else if c = CHR ''/'' then ''&#x2F;''
      else if c = CHR 0x5C then ''&#x5C;''
      else if c = CHR 0x60 then ''&#96;''
      else [c])"

definition escape :: "string \<Rightarrow> string" where
  "escape s = concat (map escape_char s)"

definition is_alnum :: "char \<Rightarrow> bool" where
  "is_alnum c \<longleftrightarrow>
     (48 \<le> (of_char c :: nat) \<and> (of_char c :: nat) \<le> 57) \<or>
     (65 \<le> (of_char c :: nat) \<and> (of_char c :: nat) \<le> 90) \<or>
     (97 \<le> (of_char c :: nat) \<and> (of_char c :: nat) \<le> 122)"

definition isAlphanumeric :: "string \<Rightarrow> bool" where
  "isAlphanumeric s \<longleftrightarrow> s \<noteq> [] \<and> list_all is_alnum s"

definition isLength :: "nat \<Rightarrow> string \<Rightarrow> bool" where
  "isLength n s \<longleftrightarrow> n \<le> length s"

text \<open>
  A chain of express-validator is a list of validators and sanitizers, run in the order
  written on the current value of the field. A validator that fails adds its message
  (\<^verbatim>\<open>withMessage\<close> names the message of the validator before it; a \<^verbatim>\<open>custom\<close> validator
  reports the reason of its rejection) and the chain goes on; a sanitizer replaces the
  value. The sanitized value is written back to the request body.
\<close>

datatype item = Validator "string \<Rightarrow> bool" string | Sanitizer "string \<Rightarrow> string"

fun run_chain :: "item list \<Rightarrow> string \<Rightarrow> string list \<times> string" where
  "run_chain [] v = ([], v)"
| "run_chain (Validator p m # items) v =
     (if p v then run_chain items v
      else (m # fst (run_chain items v), snd (run_chain items v)))"
| "run_chain (Sanitizer f # items) v = run_chain items (f v)"

definition chain_errors :: "string \<times> item list \<Rightarrow> body \<Rightarrow> verror list" where
  "chain_errors c b = map (Pair (fst c)) (fst (run_chain (snd c) (body_field b (fst c))))"

definition chain_body :: "string \<times> item list \<Rightarrow> body \<Rightarrow> body" where
  "chain_body c b = b(fst c \<mapsto> snd (run_chain (snd c) (body_field b (fst c))))"

text \<open>
  The chains of a route run one after the other, each on the body the earlier ones
  left; \<^verbatim>\<open>validationResult(req).array()\<close> is the list of all their errors, in order.
\<close>

fun validationResult :: "(string \<times> item list) list \<Rightarrow> body \<Rightarrow> verror list" where
  "validationResult [] b = []"
| "validationResult (c # cs) b = chain_errors c b @ validationResult cs (chain_body c b)"

fun sanitized :: "(string \<times> item list) list \<Rightarrow> body \<Rightarrow> body" where
  "sanitized [] b = b"
| "sanitized (c # cs) b = sanitized cs (chain_body c b)"

subsection \<open>The one-time code\<close>

text \<open>
  Modelled from the spec: \<^verbatim>\<open>utility.randomNumber\<close> is not among the sources. The spec says
  that it "generates a 6-digit numeric one-time code"; here \<open>randomNumber n r\<close> is the code
  of \<open>n\<close> decimal digits drawn from the random source \<open>r\<close>.
\<close>

fun randomNumber :: "nat \<Rightarrow> nat \<Rightarrow> string" where
  "randomNumber 0 r = []"
| "randomNumber (Suc n) r = char_of (48 + r mod 10) # randomNumber n (r div 10)"

definition is_digit :: "char \<Rightarrow> bool" where
  "is_digit c \<longleftrightarrow> 48 \<le> (of_char c :: nat) \<and> (of_char c :: nat) \<le> 57"

definition six_digit :: "string \<Rightarrow> bool" where
  "six_digit s \<longleftrightarrow> length s = 6 \<and> list_all is_digit s"

subsection \<open>The handlers\<close>

definition register_rules :: "world \<Rightarrow> admin list \<Rightarrow> (string \<times> item list) list" where
  "register_rules w store =
     [(''first_name'',
        [Validator (isLength 1) ''First name must be specified.'',
         Sanitizer trim, Sanitizer escape,
         Validator isAlphanumeric ''First name has non-alphanumeric characters.'']),
      (''last_name'',
        [Validator (isLength 1) ''Last name must be specified.'',
         Sanitizer trim, Sanitizer escape,
         Validator isAlphanumeric ''Last name has non-alphanumeric characters.'']),
      (''email_id'',
        [Validator (isLength 1) ''Email must be specified.'',
         Sanitizer trim, Sanitizer escape,
         Validator (isEmail w) ''Email must be a valid email address.'',
         Validator (\<lambda>v. findOne (\<lambda>u. email_id u = v) store = None) ''E-mail already in use'']),
      (''phone_number'',
        [Validator (isLength 1) ''Phone must be specified.'',
         Sanitizer trim, Sanitizer escape,
         Validator (\<lambda>v. findOne (\<lambda>u. phone_number u = v) store = None)
           ''Phone number already in use'']),
      (''password'',
        [Validator (isLength 6) ''Password must be 6 characters or greater.'',
         Sanitizer trim, Sanitizer escape])]"

definition login_rules :: "world \<Rightarrow> (string \<times> item list) list" where
  "login_rules w =
     [(''email_id'',
        [Validator (isLength 1) ''Email must be specified.'',
         Sanitizer trim, Sanitizer escape,
         Validator (isEmail w) ''Email must be a valid email address.'']),
      (''password'',
        [Validator (isLength 1) ''Password must be specified.'',
         Sanitizer trim, Sanitizer escape])]"

definition verifyConfirm_rules :: "world \<Rightarrow> (string \<times> item list) list" where
  "verifyConfirm_rules w =
     [(''email_id'',
        [Validator (isLength 1) ''Email must be specified.'',
         Sanitizer trim, Sanitizer escape,
         Validator (isEmail w) ''Email must be a valid email address.'']),
      (''otp'',
        [Validator (isLength 1) ''OTP must be specified.'',
         Sanitizer trim, Sanitizer escape])]"

definition resendConfirmOtp_rules :: "world \<Rightarrow> (string \<times> item list) list" where
  "resendConfirmOtp_rules w =
     [(''email_id'',
        [Validator (isLength 1) ''Email must be specified.'',
         Sanitizer trim, Sanitizer escape,
         Validator (isEmail w) ''Email must be a valid email address.''])]"

text \<open>The mail the handlers hand to \<^verbatim>\<open>mailer.send\<close>: the subject is the same in all three.\<close>

definition otp_mail :: "world \<Rightarrow> string \<Rightarrow> string \<Rightarrow> string \<Rightarrow> mail" where
  "otp_mail w recipient sentence otp =
     \<lparr> mail_from = confirmEmails_from w, mail_to = recipient,
       mail_subject = ''Confirm Account'',
       mail_html = ''<p>'' @ sentence @ ''</p><p>OTP: '' @ otp @ ''</p>'' \<rparr>"

text \<open>The \<^verbatim>\<open>userData\<close> object of \<^verbatim>\<open>register\<close>.\<close>

definition register_userData :: "admin \<Rightarrow> jobject" where
  "register_userData user =
     [(''_id'', JId (id' user)),
      (''first_name'', JString (first_name user)),
      (''last_name'', JString (last_name user)),
      (''email_id'', JString (email_id user)),
      (''phone_number'', JString (phone_number user)),
      (''designation'', JString (designation user)),
      (''address'', JString (address user)),
      (''city'', JString (city user)),
      (''state'', JString (state user)),
      (''post_code'', JString (post_code user))]"

text \<open>
  The \<^verbatim>\<open>userData\<close> object of \<^verbatim>\<open>login\<close> and \<^verbatim>\<open>verifyConfirm\<close>. It is the JWT payload as it
  stands, and the signed token is then added to it as \<^verbatim>\<open>token\<close>.
\<close>

definition userData :: "admin \<Rightarrow> jobject" where
  "userData user =
     [(''_id'', JId (id' user)),
      (''first_name'', JString (first_name user)),
      (''last_name'', JString (last_name user)),
      (''email_id'', JString (email_id user))]"

definition with_token :: "world \<Rightarrow> jobject \<Rightarrow> jobject" where
  "with_token w jwtPayload =
     jwtPayload @
     [(''token'', JString (jwt_sign w jwtPayload (JWT_SECRET w) (JWT_TIMEOUT_DURATION w)))]"

text \<open>
  The document \<^verbatim>\<open>register\<close> builds with \<^verbatim>\<open>new AdminModel\<close> from the sanitized request:
  the paths it names, over the schema defaults. \<^verbatim>\<open>isConfirmed\<close>, \<^verbatim>\<open>is_active\<close>, \<^verbatim>\<open>status\<close>,
  \<^verbatim>\<open>otpTries\<close> and \<^verbatim>\<open>image\<close> are not among them.
\<close>

definition register_user :: "world \<Rightarrow> body \<Rightarrow> admin" where
  "register_user w req =
     (AdminSchema (object_id w))
       \<lparr> first_name := body_field req ''first_name'',
         last_name := body_field req ''last_name'',
         email_id := body_field req ''email_id'',
         password := bcrypt_hash w (body_field req ''password''),
         confirmOTP := Some (randomNumber 6 (math_random w)),
         phone_number := body_field req ''phone_number'',
         designation := body_field req ''designation'',
         address := body_field req ''address'',
         city := body_field req ''city'',
         state := body_field req ''state'',
         post_code := body_field req ''post_code'' \<rparr>"

text \<open>
  The mail goes out first; the document is saved only when it was delivered, and the
  save fails when Mongoose's validation or the store rejects it.
\<close>

definition register :: "world \<Rightarrow> admin list \<Rightarrow> body \<Rightarrow> outcome" where
  "register w store b =
     (let errors = validationResult (register_rules w store) b;
          req = sanitized (register_rules w store) b
      in if errors \<noteq> [] then
           \<lparr> reply = Some (validationErrorWithData ''Validation Error.'' errors),
             db = store, outbox = [] \<rparr>
         else
           let otp = randomNumber 6 (math_random w);
               user = register_user w req;
               sent = otp_mail w (body_field req ''email_id'') ''Please Confirm your Account.'' otp
           in if mailer_ok w then
                (if required_paths user \<and> store_ok w then
                   \<lparr> reply = Some (successResponseWithData ''Registration Success.''
                               (register_userData user)),
                     db = store @ [user], outbox = [sent] \<rparr>
                 else \<lparr> reply = Some ErrorResponse, db = store, outbox = [sent] \<rparr>)
              else \<lparr> reply = Some ErrorResponse, db = store, outbox = [] \<rparr>)"

text \<open>
  In \<^verbatim>\<open>login\<close> the promise of \<^verbatim>\<open>mailer.send\<close> has no \<^verbatim>\<open>catch\<close>: when the mail is not
  delivered nothing is sent back. The update is started and not awaited: the success
  response is sent whether or not the store accepts it.
\<close>

definition login :: "world \<Rightarrow> admin list \<Rightarrow> body \<Rightarrow> outcome" where
  "login w store b =
     (let errors = validationResult (login_rules w) b;
          req = sanitized (login_rules w) b
      in if errors \<noteq> [] then
           \<lparr> reply = Some (validationErrorWithData ''Validation Error.'' errors),
             db = store, outbox = [] \<rparr>
         else
           case findOne (\<lambda>u. email_id u = body_field req ''email_id'') store of
             Some user \<Rightarrow>
               if bcrypt_compare w (body_field req ''password'') (password user) then
                 if isConfirmed user then
                   if status user then
                     let otp = randomNumber 6 (math_random w);
                         sent = otp_mail w (body_field req ''email_id'')
                                  ''Please Login your Account.'' otp
                     in if mailer_ok w then
                          \<lparr> reply = Some (successResponseWithData ''Login Success.''
                                      (with_token w (userData user))),
                            db = (if store_ok w then
                                    updateOne (\<lambda>u. email_id u = body_field req ''email_id'')
                                      (\<lambda>u. u\<lparr>isConfirmed := True, confirmOTP := Some otp\<rparr>) store
                                  else store),
                            outbox = [sent] \<rparr>
                        else \<lparr> reply = None, db = store, outbox = [] \<rparr>
                   else
                     \<lparr> reply = Some (unauthorizedResponse
                                 ''Account is not active. Please contact admin.''),
                       db = store, outbox = [] \<rparr>
                 else
                   \<lparr> reply = Some (unauthorizedResponse
                               ''Account is not confirmed. Please confirm your account.''),
                     db = store, outbox = [] \<rparr>
               else
                 \<lparr> reply = Some (unauthorizedResponse ''Email or Password wrong.''),
                   db = store, outbox = [] \<rparr>
           | None \<Rightarrow>
               \<lparr> reply = Some (unauthorizedResponse ''Email or Password wrong.''),
                 db = store, outbox = [] \<rparr>)"

text \<open>
  \<^verbatim>\<open>user.confirmOTP == req.body.otp\<close> compares a String path, which may be null, with the
  sanitized string of the request: null equals no string. The test before it is the
  constant \<^verbatim>\<open>true\<close> of the source.
\<close>

definition verifyConfirm :: "world \<Rightarrow> admin list \<Rightarrow> body \<Rightarrow> outcome" where
  "verifyConfirm w store b =
     (let errors = validationResult (verifyConfirm_rules w) b;
          req = sanitized (verifyConfirm_rules w) b
      in if errors \<noteq> [] then
           \<lparr> reply = Some (validationErrorWithData ''Validation Error.'' errors),
             db = store, outbox = [] \<rparr>
         else
           case findOne (\<lambda>u. email_id u = body_field req ''email_id'') store of
             Some user \<Rightarrow>
               if True then
                 if confirmOTP user = Some (body_field req ''otp'') then
                   \<lparr> reply = Some (successResponseWithData ''Login Success.''
                               (with_token w (userData user))),
                     db = (if store_ok w then
                             updateOne (\<lambda>u. email_id u = body_field req ''email_id'')
                               (\<lambda>u. u\<lparr>isConfirmed := True, confirmOTP := None\<rparr>) store
                           else store),
                     outbox = [] \<rparr>
                 else
                   \<lparr> reply = Some (unauthorizedResponse ''Otp does not match''),
                     db = store, outbox = [] \<rparr>
               else
                 \<lparr> reply = Some (unauthorizedResponse ''Account already confirmed.''),
                   db = store, outbox = [] \<rparr>
           | None \<Rightarrow>
               \<lparr> reply = Some (unauthorizedResponse ''Specified email not found.''),
                 db = store, outbox = [] \<rparr>)"

text \<open>
  \<^verbatim>\<open>resendConfirmOtp\<close> sets the two paths on the loaded document and saves it: Mongoose
  validates the document and writes the modified paths to the document with its \<^verbatim>\<open>_id\<close>.
  As in \<^verbatim>\<open>login\<close>, an undelivered mail leaves the request unanswered.
\<close>

definition resendConfirmOtp :: "world \<Rightarrow> admin list \<Rightarrow> body \<Rightarrow> outcome" where
  "resendConfirmOtp w store b =
     (let errors = validationResult (resendConfirmOtp_rules w) b;
          req = sanitized (resendConfirmOtp_rules w) b
      in if errors \<noteq> [] then
           \<lparr> reply = Some (validationErrorWithData ''Validation Error.'' errors),
             db = store, outbox = [] \<rparr>
         else
           case findOne (\<lambda>u. email_id u = body_field req ''email_id'') store of
             Some user \<Rightarrow>
               if True then
                 let otp = randomNumber 6 (math_random w);
                     sent = otp_mail w (body_field req ''email_id'')
                              ''Please Login your Account.'' otp
                 in if mailer_ok w then
                      (if required_paths (user\<lparr>isConfirmed := False, confirmOTP := Some otp\<rparr>)
                          \<and> store_ok w then
                         \<lparr> reply = Some (successResponse ''Confirm otp sent.''),
                           db = updateOne (\<lambda>u. id' u = id' user)
                                  (\<lambda>u. u\<lparr>isConfirmed := False, confirmOTP := Some otp\<rparr>) store,
                           outbox = [sent] \<rparr>
                       else \<lparr> reply = Some ErrorResponse, db = store, outbox = [sent] \<rparr>)
                    else \<lparr> reply = None, db = store, outbox = [] \<rparr>
               else
                 \<lparr> reply = Some (unauthorizedResponse ''Account already confirmed.''),
                   db = store, outbox = [] \<rparr>
           | None \<Rightarrow>
               \<lparr> reply = Some (unauthorizedResponse ''Specified email not found.''),
                 db = store, outbox = [] \<rparr>)"

subsection \<open>Scenario data\<close>

text \<open>
  A world for the scenarios of the spec, with the two things that can fail left open:
  \<open>delivered\<close> says whether the mailer delivers, \<open>accepted\<close> whether the store accepts a
  write. Its \<open>isEmail\<close>, bcrypt and \<open>jwt_sign\<close> are stand-ins that only the concrete
  evaluations below use.
\<close>

definition scenario_world :: "bool \<Rightarrow> bool \<Rightarrow> world" where
  "scenario_world delivered accepted =
     \<lparr> isEmail = (\<lambda>s. CHR ''@'' \<in> set s),
       bcrypt_hash = (\<lambda>p. ''$2b$10$'' @ p),
       bcrypt_compare = (\<lambda>p h. h = ''$2b$10$'' @ p),
       jwt_sign = (\<lambda>payload secret expiresIn. ''jwt'' @ secret @ expiresIn),
       JWT_SECRET = ''s3'', JWT_TIMEOUT_DURATION = ''2h'',
       confirmEmails_from = ''admin@x.com'',
       math_random = 123456, object_id = 1,
       mailer_ok = delivered, store_ok = accepted \<rparr>"

definition jane_register :: body where
  "jane_register =
     [''first_name'' \<mapsto> ''Jane'', ''last_name'' \<mapsto> ''Doe'',
      ''email_id'' \<mapsto> ''jane@x.com'', ''password'' \<mapsto> ''secret1'',
      ''phone_number'' \<mapsto> ''555-0100'', ''designation'' \<mapsto> ''Manager'',
      ''address'' \<mapsto> ''1 Main St'', ''city'' \<mapsto> ''Springfield'',
      ''state'' \<mapsto> ''IL'', ''post_code'' \<mapsto> ''62701'']"

definition jane :: admin where
  "jane =
     \<lparr> id' = 1, first_name = ''Jane'', last_name = ''Doe'', email_id = ''jane@x.com'',
       password = ''$2b$10$secret1'', isConfirmed = True, is_active = True,
       confirmOTP = Some ''654321'', otpTries = 0, status = True,
       phone_number = ''555-0100'', image' = None, designation = ''Manager'',
       address = ''1 Main St'', city = ''Springfield'', state = ''IL'',
       post_code = ''62701'' \<rparr>"

definition jane_login :: body where
  "jane_login = [''email_id'' \<mapsto> ''jane@x.com'', ''password'' \<mapsto> ''secret1'']"

definition jane_wrong_password :: body where
  "jane_wrong_password = [''email_id'' \<mapsto> ''jane@x.com'', ''password'' \<mapsto> ''wrongpass'']"

definition nobody_login :: body where
  "nobody_login = [''email_id'' \<mapsto> ''nobody@x.com'', ''password'' \<mapsto> ''secret1'']"

definition jane_verify :: body where
  "jane_verify = [''email_id'' \<mapsto> ''jane@x.com'', ''otp'' \<mapsto> ''654321'']"

definition jane_verify_wrong :: body where
  "jane_verify_wrong = [''email_id'' \<mapsto> ''jane@x.com'', ''otp'' \<mapsto> ''000000'']"

definition jane_resend :: body where
  "jane_resend = [''email_id'' \<mapsto> ''jane@x.com'']"

subsection \<open>What an update may touch\<close>


section \<open>Properties\<close>

subsection \<open>Validation, field by field\<close>

lemma body_field_upd [simp]:
  "body_field (b(k \<mapsto> v)) k' = (if k' = k then v else body_field b k')"
  by (simp add: body_field_def)

lemma login_valid_iff:
  "validationResult (login_rules w) b = [] \<longleftrightarrow>
     isLength 1 (body_field b ''email_id'') \<and>
     isEmail w (escape (trim (body_field b ''email_id''))) \<and>
     isLength 1 (body_field b ''password'')"
  by (simp add: login_rules_def chain_errors_def chain_body_def)

lemma login_sanitized:
  "body_field (sanitized (login_rules w) b) ''email_id'' = escape (trim (body_field b ''email_id''))"
  "body_field (sanitized (login_rules w) b) ''password'' = escape (trim (body_field b ''password''))"
  by (simp_all add: login_rules_def chain_body_def)

lemma verifyConfirm_valid_iff:
  "validationResult (verifyConfirm_rules w) b = [] \<longleftrightarrow>
     isLength 1 (body_field b ''email_id'') \<and>
     isEmail w (escape (trim (body_field b ''email_id''))) \<and>
     isLength 1 (body_field b ''otp'')"
  by (simp add: verifyConfirm_rules_def chain_errors_def chain_body_def)

lemma verifyConfirm_sanitized:
  "body_field (sanitized (verifyConfirm_rules w) b) ''email_id'' = escape (trim (body_field b ''email_id''))"
  "body_field (sanitized (verifyConfirm_rules w) b) ''otp'' = escape (trim (body_field b ''otp''))"
  by (simp_all add: verifyConfirm_rules_def chain_body_def)

lemma resendConfirmOtp_valid_iff:
  "validationResult (resendConfirmOtp_rules w) b = [] \<longleftrightarrow>
     isLength 1 (body_field b ''email_id'') \<and>
     isEmail w (escape (trim (body_field b ''email_id'')))"
  by (simp add: resendConfirmOtp_rules_def chain_errors_def chain_body_def)

lemma resendConfirmOtp_sanitized:
  "body_field (sanitized (resendConfirmOtp_rules w) b) ''email_id'' = escape (trim (body_field b ''email_id''))"
  by (simp add: resendConfirmOtp_rules_def chain_body_def)

lemma register_sanitized:
  "body_field (sanitized (register_rules w store) b) ''first_name'' = escape (trim (body_field b ''first_name''))"
  "body_field (sanitized (register_rules w store) b) ''last_name'' = escape (trim (body_field b ''last_name''))"
  "body_field (sanitized (register_rules w store) b) ''email_id'' = escape (trim (body_field b ''email_id''))"
  "body_field (sanitized (register_rules w store) b) ''phone_number'' = escape (trim (body_field b ''phone_number''))"
  "body_field (sanitized (register_rules w store) b) ''password'' = escape (trim (body_field b ''password''))"
  "body_field (sanitized (register_rules w store) b) ''designation'' = body_field b ''designation''"
  "body_field (sanitized (register_rules w store) b) ''address'' = body_field b ''address''"
  "body_field (sanitized (register_rules w store) b) ''city'' = body_field b ''city''"
  "body_field (sanitized (register_rules w store) b) ''state'' = body_field b ''state''"
  "body_field (sanitized (register_rules w store) b) ''post_code'' = body_field b ''post_code''"
  by (simp_all add: register_rules_def chain_body_def)

text \<open>The errors of a route are the errors of its chains on the request as it came in.\<close>

lemma chain_errors_cong:
  "b' (fst c) = b (fst c) \<Longrightarrow> chain_errors c b' = chain_errors c b"
  by (simp add: chain_errors_def body_field_def)

lemma validationResult_concat_gen:
  "distinct (map fst cs) \<Longrightarrow> \<forall>c \<in> set cs. b' (fst c) = b (fst c) \<Longrightarrow>
     validationResult cs b' = concat (map (\<lambda>c. chain_errors c b) cs)"
proof (induction cs arbitrary: b')
  case Nil
  then show ?case by simp
next
  case (Cons c cs)
  have "\<forall>d \<in> set cs. (chain_body c b') (fst d) = b (fst d)"
  proof
    fix d assume d: "d \<in> set cs"
    then have "fst d \<in> set (map fst cs)" by simp
    moreover have "fst c \<notin> set (map fst cs)" using Cons.prems(1) by simp
    ultimately have "fst d \<noteq> fst c" by metis
    with d Cons.prems(2) show "(chain_body c b') (fst d) = b (fst d)"
      by (simp add: chain_body_def)
  qed
  moreover have "distinct (map fst cs)"
    using Cons.prems(1) by simp
  ultimately have "validationResult cs (chain_body c b') = concat (map (\<lambda>c. chain_errors c b) cs)"
    by (rule Cons.IH [rotated])
  moreover have "chain_errors c b' = chain_errors c b"
    by (rule chain_errors_cong) (simp add: Cons.prems(2))
  ultimately show ?case by simp
qed

lemma validationResult_concat:
  "distinct (map fst cs) \<Longrightarrow> validationResult cs b = concat (map (\<lambda>c. chain_errors c b) cs)"
  by (simp add: validationResult_concat_gen)

lemma register_rules_distinct: "distinct (map fst (register_rules w store))"
  by (simp add: register_rules_def)

lemma register_email_in_use:
  "findOne (\<lambda>u. email_id u = escape (trim (body_field b ''email_id''))) store \<noteq> None \<Longrightarrow>
   (''email_id'', ''E-mail already in use'')
     \<in> set (concat (map (\<lambda>c. chain_errors c b) (register_rules w store)))"
  by (simp add: register_rules_def chain_errors_def)

lemma register_phone_in_use:
  "findOne (\<lambda>u. phone_number u = escape (trim (body_field b ''phone_number''))) store \<noteq> None \<Longrightarrow>
   (''phone_number'', ''Phone number already in use'')
     \<in> set (concat (map (\<lambda>c. chain_errors c b) (register_rules w store)))"
  by (simp add: register_rules_def chain_errors_def)

lemma register_valid_iff:
  "validationResult (register_rules w store) b = [] \<longleftrightarrow>
     isLength 1 (body_field b ''first_name'') \<and>
     isAlphanumeric (escape (trim (body_field b ''first_name''))) \<and>
     isLength 1 (body_field b ''last_name'') \<and>
     isAlphanumeric (escape (trim (body_field b ''last_name''))) \<and>
     isLength 1 (body_field b ''email_id'') \<and>
     isEmail w (escape (trim (body_field b ''email_id''))) \<and>
     findOne (\<lambda>u. email_id u = escape (trim (body_field b ''email_id''))) store = None \<and>
     isLength 1 (body_field b ''phone_number'') \<and>
     findOne (\<lambda>u. phone_number u = escape (trim (body_field b ''phone_number''))) store = None \<and>
     isLength 6 (body_field b ''password'')"
  by (simp add: validationResult_concat [OF register_rules_distinct])
     (simp add: register_rules_def chain_errors_def)

subsection \<open>The one-time code has six digits\<close>

lemma length_randomNumber: "length (randomNumber n r) = n"
  by (induction n arbitrary: r) simp_all

lemma is_digit_char_of: "is_digit (char_of (48 + r mod 10 :: nat))"
proof -
  have "r mod 10 < 10" by simp
  then have "(48 + r mod 10) mod 256 = 48 + r mod 10" by simp
  then show ?thesis
    by (simp add: is_digit_def)
qed

lemma digits_randomNumber: "list_all is_digit (randomNumber n r)"
  by (induction n arbitrary: r) (simp_all add: is_digit_char_of)

lemma six_digit_randomNumber: "six_digit (randomNumber 6 r)"
  by (simp add: six_digit_def length_randomNumber digits_randomNumber)

subsection \<open>Lookups after an update\<close>

lemma findOne_updateOne_same:
  assumes "findOne q docs = Some user" and "\<And>u. q (f u) = q u"
  shows "findOne q (updateOne q f docs) = Some (f user)"
  using assms(1)
  by (induction docs) (auto simp: findOne_def assms(2) split: if_splits)

lemma findOne_updateOne_id:
  assumes "findOne q docs = Some user" and "distinct (map id' docs)"
    and "\<And>u. q (f u) = q u"
  shows "findOne q (updateOne (\<lambda>u. id' u = id' user) f docs) = Some (f user)"
  using assms(1,2)
proof (induction docs)
  case Nil
  then show ?case by (simp add: findOne_def)
next
  case (Cons d docs)
  show ?case
  proof (cases "q d")
    case True
    with Cons.prems show ?thesis by (simp add: findOne_def assms(3))
  next
    case False
    with Cons.prems have f: "findOne q docs = Some user" by (simp add: findOne_def)
    then have "user \<in> set docs" by (auto simp: findOne_def find_Some_iff)
    with Cons.prems have "id' d \<noteq> id' user" by auto
    with False f Cons show ?thesis by (simp add: findOne_def assms(3))
  qed
qed

subsection \<open>The branches of the handlers\<close>

lemma login_granted:
  assumes "validationResult (login_rules w) b = []"
    and "findOne (\<lambda>u. email_id u = body_field (sanitized (login_rules w) b) ''email_id'') store
           = Some user"
    and "bcrypt_compare w (body_field (sanitized (login_rules w) b) ''password'') (password user)"
    and "isConfirmed user" and "status user" and "mailer_ok w"
  shows "login w store b =
           \<lparr> reply = Some (successResponseWithData ''Login Success.''
                       (with_token w (userData user))),
             db = (if store_ok w then
                     updateOne (\<lambda>u. email_id u =
                         body_field (sanitized (login_rules w) b) ''email_id'')
                       (\<lambda>u. u\<lparr>isConfirmed := True,
                                confirmOTP := Some (randomNumber 6 (math_random w))\<rparr>) store
                   else store),
             outbox = [otp_mail w (body_field (sanitized (login_rules w) b) ''email_id'')
                         ''Please Login your Account.'' (randomNumber 6 (math_random w))] \<rparr>"
  using assms by (simp add: login_def Let_def)

lemma login_undelivered:
  assumes "validationResult (login_rules w) b = []"
    and "findOne (\<lambda>u. email_id u = body_field (sanitized (login_rules w) b) ''email_id'') store
           = Some user"
    and "bcrypt_compare w (body_field (sanitized (login_rules w) b) ''password'') (password user)"
    and "isConfirmed user" and "status user" and "\<not> mailer_ok w"
  shows "login w store b = \<lparr> reply = None, db = store, outbox = [] \<rparr>"
  using assms by (simp add: login_def)

subsection \<open>Scenario evaluation\<close>

lemmas scenario =
  scenario_world_def jane_def jane_login_def jane_register_def jane_wrong_password_def
  nobody_login_def jane_verify_def jane_verify_wrong_def jane_resend_def
  isLength_def trim_def escape_def escape_char_def is_space_def findOne_def

lemma six_Suc: "6 = Suc (Suc (Suc (Suc (Suc (Suc 0)))))"
  by simp

lemma digit_chars:
  "char_of (49::nat) = CHR ''1''" "char_of (50::nat) = CHR ''2''" "char_of (51::nat) = CHR ''3''"
  "char_of (52::nat) = CHR ''4''" "char_of (53::nat) = CHR ''5''" "char_of (54::nat) = CHR ''6''"
  by code_simp+

lemma scenario_otp: "randomNumber 6 (math_random (scenario_world m s)) = ''654321''"
  unfolding six_Suc by (simp add: scenario_world_def digit_chars)

lemma jane_login_valid: "validationResult (login_rules (scenario_world m s)) jane_login = []"
  by (simp add: login_valid_iff scenario)

lemma jane_login_email:
  "body_field (sanitized (login_rules (scenario_world m s)) jane_login) ''email_id''
     = ''jane@x.com''"
  by (simp add: login_sanitized scenario)

lemma jane_login_password:
  "body_field (sanitized (login_rules (scenario_world m s)) jane_login) ''password''
     = ''secret1''"
  by (simp add: login_sanitized scenario)

lemma jane_login_found:
  "email_id u = ''jane@x.com'' \<Longrightarrow>
   findOne (\<lambda>u. email_id u =
      body_field (sanitized (login_rules (scenario_world m s)) jane_login) ''email_id'') [u]
   = Some u"
  by (simp add: jane_login_email findOne_def)

lemma jane_login_compare:
  "password u = ''$2b$10$secret1'' \<Longrightarrow>
   bcrypt_compare (scenario_world m s)
     (body_field (sanitized (login_rules (scenario_world m s)) jane_login) ''password'')
     (password u)"
  by (simp add: jane_login_password) (simp add: scenario_world_def)

lemma jane_wrong_password_valid:
  "validationResult (login_rules (scenario_world m s)) jane_wrong_password = []"
  by (simp add: login_valid_iff scenario)

lemma nobody_login_valid:
  "validationResult (login_rules (scenario_world m s)) nobody_login = []"
  by (simp add: login_valid_iff scenario)

subsection \<open>Login\<close>

text \<open>
  C4. In a login that reaches the password comparison (the request passes validation,
  the account is found by the sanitized email) with a matching password, the
  confirmation check comes before the activity check: when \<^verbatim>\<open>isConfirmed\<close> is false the
  response is Unauthorized with the confirmation message, whatever \<^verbatim>\<open>is_active\<close> and
  \<^verbatim>\<open>status\<close> are, and nothing is written or mailed.
\<close>

theorem login_unconfirmed:
  assumes "validationResult (login_rules w) b = []"
    and "findOne (\<lambda>u. email_id u = body_field (sanitized (login_rules w) b) ''email_id'') store
           = Some user"
    and "bcrypt_compare w (body_field (sanitized (login_rules w) b) ''password'') (password user)"
    and "\<not> isConfirmed user"
  shows "login w store b =
           \<lparr> reply = Some (unauthorizedResponse
                       ''Account is not confirmed. Please confirm your account.''),
             db = store, outbox = [] \<rparr>"
  using assms by (simp add: login_def)

theorem login_unconfirmed_witness:
  "login (scenario_world True True)
     [jane\<lparr>isConfirmed := False, is_active := False, status := False\<rparr>] jane_login =
     \<lparr> reply = Some (unauthorizedResponse
                 ''Account is not confirmed. Please confirm your account.''),
       db = [jane\<lparr>isConfirmed := False, is_active := False, status := False\<rparr>],
       outbox = [] \<rparr>"
  by (rule login_unconfirmed [OF jane_login_valid jane_login_found jane_login_compare])
     (simp_all add: jane_def)

text \<open>
  C7. A login with an email that matches no account and a login with an account whose
  password does not match get the same response, Unauthorized with the message
  \<^verbatim>\<open>Email or Password wrong.\<close>; neither writes nor mails anything. (Both requests pass
  validation: the lookup only happens then.)
\<close>

theorem login_generic_message:
  assumes "validationResult (login_rules w1) b1 = []"
    and "findOne (\<lambda>u. email_id u = body_field (sanitized (login_rules w1) b1) ''email_id'') store1
           = None"
    and "validationResult (login_rules w2) b2 = []"
    and "findOne (\<lambda>u. email_id u = body_field (sanitized (login_rules w2) b2) ''email_id'') store2
           = Some user"
    and "\<not> bcrypt_compare w2 (body_field (sanitized (login_rules w2) b2) ''password'')
             (password user)"
  shows "login w1 store1 b1 =
           \<lparr> reply = Some (unauthorizedResponse ''Email or Password wrong.''),
             db = store1, outbox = [] \<rparr> \<and>
         login w2 store2 b2 =
           \<lparr> reply = Some (unauthorizedResponse ''Email or Password wrong.''),
             db = store2, outbox = [] \<rparr> \<and>
         reply (login w1 store1 b1) = reply (login w2 store2 b2)"
  using assms by (simp add: login_def)

theorem login_generic_message_witness:
  "login (scenario_world True True) [jane] nobody_login =
     \<lparr> reply = Some (unauthorizedResponse ''Email or Password wrong.''),
       db = [jane], outbox = [] \<rparr> \<and>
   login (scenario_world True True) [jane] jane_wrong_password =
     \<lparr> reply = Some (unauthorizedResponse ''Email or Password wrong.''),
       db = [jane], outbox = [] \<rparr> \<and>
   reply (login (scenario_world True True) [jane] nobody_login) =
     reply (login (scenario_world True True) [jane] jane_wrong_password)"
proof (rule login_generic_message [OF nobody_login_valid _ jane_wrong_password_valid])
  show "findOne (\<lambda>u. email_id u =
          body_field (sanitized (login_rules (scenario_world True True)) nobody_login)
            ''email_id'') [jane] = None"
    by (simp add: login_sanitized) (simp add: scenario)
  show "findOne (\<lambda>u. email_id u =
          body_field (sanitized (login_rules (scenario_world True True)) jane_wrong_password)
            ''email_id'') [jane] = Some jane"
    by (simp add: login_sanitized) (simp add: scenario)
  show "\<not> bcrypt_compare (scenario_world True True)
          (body_field (sanitized (login_rules (scenario_world True True)) jane_wrong_password)
            ''password'') (password jane)"
    by (simp add: login_sanitized) (simp add: scenario)
qed




text \<open>
  C9, as the code has it. A login that passes the password, confirmation and \<^verbatim>\<open>status\<close>
  checks, whose mail is delivered and whose update the store accepts, has drawn a
  six-digit code and mailed it; the account then has that code and \<^verbatim>\<open>isConfirmed\<close> true,
  and the response is \<^verbatim>\<open>Login Success.\<close> with the identity and name claims and a token
  signed over exactly these claims with the configured secret and expiry.
\<close>

theorem login_success:
  assumes "validationResult (login_rules w) b = []"
    and "findOne (\<lambda>u. email_id u = body_field (sanitized (login_rules w) b) ''email_id'') store
           = Some user"
    and "bcrypt_compare w (body_field (sanitized (login_rules w) b) ''password'') (password user)"
    and "isConfirmed user"
    and "status user"
    and "mailer_ok w"
    and "store_ok w"
  shows "reply (login w store b) =
           Some (successResponseWithData ''Login Success.''
             [(''_id'', JId (id' user)),
              (''first_name'', JString (first_name user)),
              (''last_name'', JString (last_name user)),
              (''email_id'', JString (email_id user)),
              (''token'', JString (jwt_sign w
                 [(''_id'', JId (id' user)),
                  (''first_name'', JString (first_name user)),
                  (''last_name'', JString (last_name user)),
                  (''email_id'', JString (email_id user))]
                 (JWT_SECRET w) (JWT_TIMEOUT_DURATION w)))]) \<and>
         six_digit (randomNumber 6 (math_random w)) \<and>
         outbox (login w store b) =
           [otp_mail w (body_field (sanitized (login_rules w) b) ''email_id'')
              ''Please Login your Account.'' (randomNumber 6 (math_random w))] \<and>
         findOne (\<lambda>u. email_id u = body_field (sanitized (login_rules w) b) ''email_id'')
           (db (login w store b))
         = Some (user\<lparr>isConfirmed := True,
                      confirmOTP := Some (randomNumber 6 (math_random w))\<rparr>)"
proof -
  note g = login_granted [OF assms(1-6)]
  have "findOne (\<lambda>u. email_id u = body_field (sanitized (login_rules w) b) ''email_id'')
          (db (login w store b))
        = Some (user\<lparr>isConfirmed := True,
                     confirmOTP := Some (randomNumber 6 (math_random w))\<rparr>)"
    by (simp add: g assms(7) findOne_updateOne_same [OF assms(2)])
  then show ?thesis
    by (simp add: g userData_def with_token_def six_digit_randomNumber)
qed

theorem login_success_witness:
  "reply (login (scenario_world True True) [jane\<lparr>confirmOTP := None\<rparr>] jane_login) =
     Some (successResponseWithData ''Login Success.''
       [(''_id'', JId 1), (''first_name'', JString ''Jane''), (''last_name'', JString ''Doe''),
        (''email_id'', JString ''jane@x.com''), (''token'', JString ''jwts32h'')]) \<and>
   six_digit ''654321'' \<and>
   outbox (login (scenario_world True True) [jane\<lparr>confirmOTP := None\<rparr>] jane_login) =
     [\<lparr> mail_from = ''admin@x.com'', mail_to = ''jane@x.com'',
        mail_subject = ''Confirm Account'',
        mail_html = ''<p>Please Login your Account.</p><p>OTP: 654321</p>'' \<rparr>] \<and>
   findOne (\<lambda>u. email_id u = ''jane@x.com'')
     (db (login (scenario_world True True) [jane\<lparr>confirmOTP := None\<rparr>] jane_login))
     = Some jane"
proof -
  let ?u = "jane\<lparr>confirmOTP := None\<rparr>"
  have f: "findOne (\<lambda>u. email_id u =
      body_field (sanitized (login_rules (scenario_world True True)) jane_login) ''email_id'')
      [?u] = Some ?u"
    by (rule jane_login_found) (simp add: jane_def)
  have c: "bcrypt_compare (scenario_world True True)
      (body_field (sanitized (login_rules (scenario_world True True)) jane_login) ''password'')
      (password ?u)"
    by (rule jane_login_compare) (simp add: jane_def)
  have i: "isConfirmed ?u" and s: "status ?u" and m: "mailer_ok (scenario_world True True)"
    and o: "store_ok (scenario_world True True)"
    by (simp_all add: jane_def scenario_world_def)
  have u: "?u\<lparr>isConfirmed := True, confirmOTP := Some ''654321''\<rparr> = jane"
    by (simp add: jane_def)
  have j: "id' ?u = 1" "first_name ?u = ''Jane''" "last_name ?u = ''Doe''"
    "email_id ?u = ''jane@x.com''"
    by (simp_all add: jane_def)
  have t: "jwt_sign (scenario_world True True) p (JWT_SECRET (scenario_world True True))
             (JWT_TIMEOUT_DURATION (scenario_world True True)) = ''jwts32h''" for p
    by (simp add: scenario_world_def)
  have k: "otp_mail (scenario_world True True) ''jane@x.com'' ''Please Login your Account.''
             ''654321'' =
           \<lparr> mail_from = ''admin@x.com'', mail_to = ''jane@x.com'',
             mail_subject = ''Confirm Account'',
             mail_html = ''<p>Please Login your Account.</p><p>OTP: 654321</p>'' \<rparr>"
    by (simp add: otp_mail_def scenario_world_def)
  show ?thesis
    using login_success [OF jane_login_valid f c i s m o]
    by (simp add: jane_login_email scenario_otp u j t k)
qed

text \<open>
  C9 as stated fails where the mailer does not deliver: the promise of \<^verbatim>\<open>mailer.send\<close>
  has no rejection handler in \<^verbatim>\<open>login\<close>, so no response is sent and no token returned.
\<close>

theorem login_mail_failure_counterexample:
  "findOne (\<lambda>u. email_id u =
      body_field (sanitized (login_rules (scenario_world False True)) jane_login) ''email_id'')
      [jane] = Some jane \<and>
   bcrypt_compare (scenario_world False True)
      (body_field (sanitized (login_rules (scenario_world False True)) jane_login) ''password'')
      (password jane) \<and>
   isConfirmed jane \<and> status jane \<and>
   login (scenario_world False True) [jane] jane_login =
     \<lparr> reply = None, db = [jane], outbox = [] \<rparr>"
proof -
  have f: "findOne (\<lambda>u. email_id u =
      body_field (sanitized (login_rules (scenario_world False True)) jane_login) ''email_id'')
      [jane] = Some jane"
    by (rule jane_login_found) (simp add: jane_def)
  have c: "bcrypt_compare (scenario_world False True)
      (body_field (sanitized (login_rules (scenario_world False True)) jane_login) ''password'')
      (password jane)"
    by (rule jane_login_compare) (simp add: jane_def)
  have i: "isConfirmed jane" and s: "status jane"
    and m: "\<not> mailer_ok (scenario_world False True)"
    by (simp_all add: jane_def scenario_world_def)
  show ?thesis
    using f c i s login_undelivered [OF jane_login_valid f c i s m] by simp
qed

subsection \<open>verifyConfirm\<close>

lemma verifyConfirm_otp_equal:
  assumes "validationResult (verifyConfirm_rules w) b = []"
    and "findOne (\<lambda>u. email_id u =
           body_field (sanitized (verifyConfirm_rules w) b) ''email_id'') store = Some user"
    and "confirmOTP user = Some (body_field (sanitized (verifyConfirm_rules w) b) ''otp'')"
  shows "verifyConfirm w store b =
           \<lparr> reply = Some (successResponseWithData ''Login Success.''
                       (with_token w (userData user))),
             db = (if store_ok w then
                     updateOne (\<lambda>u. email_id u =
                         body_field (sanitized (verifyConfirm_rules w) b) ''email_id'')
                       (\<lambda>u. u\<lparr>isConfirmed := True, confirmOTP := None\<rparr>) store
                   else store),
             outbox = [] \<rparr>"
  using assms by (simp add: verifyConfirm_def Let_def)

lemma jane_verify_valid:
  "validationResult (verifyConfirm_rules (scenario_world m s)) jane_verify = []"
  by (simp add: verifyConfirm_valid_iff scenario)

lemma jane_verify_email:
  "body_field (sanitized (verifyConfirm_rules (scenario_world m s)) jane_verify) ''email_id''
     = ''jane@x.com''"
  by (simp add: verifyConfirm_sanitized scenario)

lemma jane_verify_otp:
  "body_field (sanitized (verifyConfirm_rules (scenario_world m s)) jane_verify) ''otp''
     = ''654321''"
  by (simp add: verifyConfirm_sanitized scenario)

lemma jane_verify_found:
  "email_id u = ''jane@x.com'' \<Longrightarrow>
   findOne (\<lambda>u. email_id u =
      body_field (sanitized (verifyConfirm_rules (scenario_world m s)) jane_verify) ''email_id'')
      [u] = Some u"
  by (simp add: jane_verify_email findOne_def)

lemma jane_token:
  "email_id u = ''jane@x.com'' \<Longrightarrow> id' u = 1 \<Longrightarrow> first_name u = ''Jane'' \<Longrightarrow>
   last_name u = ''Doe'' \<Longrightarrow>
   with_token (scenario_world m s) (userData u) =
     [(''_id'', JId 1), (''first_name'', JString ''Jane''), (''last_name'', JString ''Doe''),
      (''email_id'', JString ''jane@x.com''), (''token'', JString ''jwts32h'')]"
  by (simp add: with_token_def userData_def scenario_world_def)

text \<open>
  C5, as the code has it. When the sanitized \<^verbatim>\<open>otp\<close> of the request equals the stored
  \<^verbatim>\<open>confirmOTP\<close> of the account found and the store accepts the update, the account then
  has \<^verbatim>\<open>isConfirmed\<close> true and \<^verbatim>\<open>confirmOTP\<close> null, and the response is \<^verbatim>\<open>Login Success.\<close>
  with the account's id, first name, last name and email and a token signed over exactly
  these claims.
\<close>

theorem verifyConfirm_match:
  assumes "validationResult (verifyConfirm_rules w) b = []"
    and "findOne (\<lambda>u. email_id u =
           body_field (sanitized (verifyConfirm_rules w) b) ''email_id'') store = Some user"
    and "confirmOTP user = Some (body_field (sanitized (verifyConfirm_rules w) b) ''otp'')"
    and "store_ok w"
  shows "reply (verifyConfirm w store b) =
           Some (successResponseWithData ''Login Success.''
             [(''_id'', JId (id' user)),
              (''first_name'', JString (first_name user)),
              (''last_name'', JString (last_name user)),
              (''email_id'', JString (email_id user)),
              (''token'', JString (jwt_sign w
                 [(''_id'', JId (id' user)),
                  (''first_name'', JString (first_name user)),
                  (''last_name'', JString (last_name user)),
                  (''email_id'', JString (email_id user))]
                 (JWT_SECRET w) (JWT_TIMEOUT_DURATION w)))]) \<and>
         findOne (\<lambda>u. email_id u =
             body_field (sanitized (verifyConfirm_rules w) b) ''email_id'')
           (db (verifyConfirm w store b))
         = Some (user\<lparr>isConfirmed := True, confirmOTP := None\<rparr>)"
proof -
  note g = verifyConfirm_otp_equal [OF assms(1-3)]
  have "findOne (\<lambda>u. email_id u =
            body_field (sanitized (verifyConfirm_rules w) b) ''email_id'')
          (db (verifyConfirm w store b))
        = Some (user\<lparr>isConfirmed := True, confirmOTP := None\<rparr>)"
    by (simp add: g assms(4) findOne_updateOne_same [OF assms(2)])
  then show ?thesis
    by (simp add: g userData_def with_token_def)
qed

theorem verifyConfirm_match_witness:
  "reply (verifyConfirm (scenario_world True True) [jane\<lparr>isConfirmed := False\<rparr>] jane_verify) =
     Some (successResponseWithData ''Login Success.''
       [(''_id'', JId 1), (''first_name'', JString ''Jane''), (''last_name'', JString ''Doe''),
        (''email_id'', JString ''jane@x.com''), (''token'', JString ''jwts32h'')]) \<and>
   findOne (\<lambda>u. email_id u = ''jane@x.com'')
     (db (verifyConfirm (scenario_world True True) [jane\<lparr>isConfirmed := False\<rparr>] jane_verify))
     = Some (jane\<lparr>isConfirmed := True, confirmOTP := None\<rparr>)"
proof -
  let ?u = "jane\<lparr>isConfirmed := False\<rparr>"
  have f: "findOne (\<lambda>u. email_id u =
      body_field (sanitized (verifyConfirm_rules (scenario_world True True)) jane_verify)
        ''email_id'') [?u] = Some ?u"
    by (rule jane_verify_found) (simp add: jane_def)
  have c: "confirmOTP ?u =
      Some (body_field (sanitized (verifyConfirm_rules (scenario_world True True)) jane_verify)
        ''otp'')"
    by (simp add: jane_verify_otp) (simp add: jane_def)
  have o: "store_ok (scenario_world True True)"
    by (simp add: scenario_world_def)
  have j: "id' ?u = 1" "first_name ?u = ''Jane''" "last_name ?u = ''Doe''"
    "email_id ?u = ''jane@x.com''"
    by (simp_all add: jane_def)
  have t: "jwt_sign (scenario_world True True) p (JWT_SECRET (scenario_world True True))
             (JWT_TIMEOUT_DURATION (scenario_world True True)) = ''jwts32h''" for p
    by (simp add: scenario_world_def)
  show ?thesis
    using verifyConfirm_match [OF jane_verify_valid f c o]
    by (simp add: jane_verify_email j t)
qed

text \<open>
  C5 as stated fails where the store rejects the update: the update is started and not
  awaited, so the token is returned all the same and the account stays unconfirmed with
  its code.
\<close>

theorem verifyConfirm_store_failure_counterexample:
  "findOne (\<lambda>u. email_id u =
      body_field (sanitized (verifyConfirm_rules (scenario_world True False)) jane_verify)
        ''email_id'') [jane\<lparr>isConfirmed := False\<rparr>] = Some (jane\<lparr>isConfirmed := False\<rparr>) \<and>
   confirmOTP (jane\<lparr>isConfirmed := False\<rparr>) =
      Some (body_field (sanitized (verifyConfirm_rules (scenario_world True False)) jane_verify)
        ''otp'') \<and>
   verifyConfirm (scenario_world True False) [jane\<lparr>isConfirmed := False\<rparr>] jane_verify =
     \<lparr> reply = Some (successResponseWithData ''Login Success.''
         [(''_id'', JId 1), (''first_name'', JString ''Jane''), (''last_name'', JString ''Doe''),
          (''email_id'', JString ''jane@x.com''), (''token'', JString ''jwts32h'')]),
       db = [jane\<lparr>isConfirmed := False\<rparr>], outbox = [] \<rparr> \<and>
   \<not> isConfirmed (jane\<lparr>isConfirmed := False\<rparr>) \<and>
   confirmOTP (jane\<lparr>isConfirmed := False\<rparr>) = Some ''654321''"
proof -
  let ?u = "jane\<lparr>isConfirmed := False\<rparr>"
  have f: "findOne (\<lambda>u. email_id u =
      body_field (sanitized (verifyConfirm_rules (scenario_world True False)) jane_verify)
        ''email_id'') [?u] = Some ?u"
    by (rule jane_verify_found) (simp add: jane_def)
  have c: "confirmOTP ?u =
      Some (body_field (sanitized (verifyConfirm_rules (scenario_world True False)) jane_verify)
        ''otp'')"
    by (simp add: jane_verify_otp) (simp add: jane_def)
  have o: "\<not> store_ok (scenario_world True False)"
    by (simp add: scenario_world_def)
  have t: "with_token (scenario_world True False) (userData ?u) =
     [(''_id'', JId 1), (''first_name'', JString ''Jane''), (''last_name'', JString ''Doe''),
      (''email_id'', JString ''jane@x.com''), (''token'', JString ''jwts32h'')]"
    by (rule jane_token) (simp_all add: jane_def)
  have k: "confirmOTP ?u = Some ''654321''"
    by (simp add: jane_def)
  show ?thesis
    using f c k verifyConfirm_otp_equal [OF jane_verify_valid f c] by (simp add: o t)
qed



subsection \<open>resendConfirmOtp\<close>

lemma required_paths_confirm [simp]:
  "required_paths (u\<lparr>isConfirmed := c, confirmOTP := k\<rparr>) = required_paths u"
  by (simp add: required_paths_def)

lemma resendConfirmOtp_delivered:
  assumes "validationResult (resendConfirmOtp_rules w) b = []"
    and "findOne (\<lambda>u. email_id u =
           body_field (sanitized (resendConfirmOtp_rules w) b) ''email_id'') store = Some user"
    and "mailer_ok w"
  shows "resendConfirmOtp w store b =
           (if required_paths user \<and> store_ok w then
              \<lparr> reply = Some (successResponse ''Confirm otp sent.''),
                db = updateOne (\<lambda>u. id' u = id' user)
                       (\<lambda>u. u\<lparr>isConfirmed := False,
                                confirmOTP := Some (randomNumber 6 (math_random w))\<rparr>) store,
                outbox = [otp_mail w
                            (body_field (sanitized (resendConfirmOtp_rules w) b) ''email_id'')
                            ''Please Login your Account.'' (randomNumber 6 (math_random w))] \<rparr>
            else
              \<lparr> reply = Some ErrorResponse, db = store,
                outbox = [otp_mail w
                            (body_field (sanitized (resendConfirmOtp_rules w) b) ''email_id'')
                            ''Please Login your Account.'' (randomNumber 6 (math_random w))] \<rparr>)"
  using assms by (simp add: resendConfirmOtp_def Let_def)

lemma resendConfirmOtp_undelivered:
  assumes "validationResult (resendConfirmOtp_rules w) b = []"
    and "findOne (\<lambda>u. email_id u =
           body_field (sanitized (resendConfirmOtp_rules w) b) ''email_id'') store = Some user"
    and "\<not> mailer_ok w"
  shows "resendConfirmOtp w store b = \<lparr> reply = None, db = store, outbox = [] \<rparr>"
  using assms by (simp add: resendConfirmOtp_def Let_def)

lemma jane_resend_valid:
  "validationResult (resendConfirmOtp_rules (scenario_world m s)) jane_resend = []"
  by (simp add: resendConfirmOtp_valid_iff scenario)

lemma jane_resend_email:
  "body_field (sanitized (resendConfirmOtp_rules (scenario_world m s)) jane_resend) ''email_id''
     = ''jane@x.com''"
  by (simp add: resendConfirmOtp_sanitized scenario)

lemma jane_resend_found:
  "email_id u = ''jane@x.com'' \<Longrightarrow>
   findOne (\<lambda>u. email_id u =
      body_field (sanitized (resendConfirmOtp_rules (scenario_world m s)) jane_resend)
        ''email_id'') [u] = Some u"
  by (simp add: jane_resend_email findOne_def)

lemma jane_required: "required_paths jane"
  by (simp add: required_paths_def jane_def)

text \<open>
  C3, as the code has it. For a request that finds an account, whether or not the
  account is confirmed, the \<^verbatim>\<open>Account already confirmed.\<close> branch is never taken; and
  when the mail is delivered and the save succeeds (the document has its required
  paths, the store accepts the write, \<^verbatim>\<open>_id\<close> is a key of the collection), the response
  is the plain acknowledgement \<^verbatim>\<open>Confirm otp sent.\<close>, which carries no data, the mail
  holds a six-digit code, and the account then has that code and \<^verbatim>\<open>isConfirmed\<close> false.
\<close>

theorem resendConfirmOtp_regenerates:
  assumes "validationResult (resendConfirmOtp_rules w) b = []"
    and "findOne (\<lambda>u. email_id u =
           body_field (sanitized (resendConfirmOtp_rules w) b) ''email_id'') store = Some user"
  shows "reply (resendConfirmOtp w store b)
           \<noteq> Some (unauthorizedResponse ''Account already confirmed.'') \<and>
         (mailer_ok w \<and> required_paths user \<and> store_ok w \<and> distinct (map id' store) \<longrightarrow>
            reply (resendConfirmOtp w store b) = Some (successResponse ''Confirm otp sent.'') \<and>
            six_digit (randomNumber 6 (math_random w)) \<and>
            outbox (resendConfirmOtp w store b) =
              [otp_mail w (body_field (sanitized (resendConfirmOtp_rules w) b) ''email_id'')
                 ''Please Login your Account.'' (randomNumber 6 (math_random w))] \<and>
            findOne (\<lambda>u. email_id u =
                body_field (sanitized (resendConfirmOtp_rules w) b) ''email_id'')
              (db (resendConfirmOtp w store b))
            = Some (user\<lparr>isConfirmed := False,
                         confirmOTP := Some (randomNumber 6 (math_random w))\<rparr>))"
proof (cases "mailer_ok w")
  case False
  then show ?thesis
    by (simp add: resendConfirmOtp_undelivered [OF assms])
next
  case True
  note d = resendConfirmOtp_delivered [OF assms True]
  have "distinct (map id' store) \<Longrightarrow>
          findOne (\<lambda>u. email_id u =
              body_field (sanitized (resendConfirmOtp_rules w) b) ''email_id'')
            (updateOne (\<lambda>u. id' u = id' user)
               (\<lambda>u. u\<lparr>isConfirmed := False,
                        confirmOTP := Some (randomNumber 6 (math_random w))\<rparr>) store)
          = Some (user\<lparr>isConfirmed := False,
                       confirmOTP := Some (randomNumber 6 (math_random w))\<rparr>)"
    by (rule findOne_updateOne_id [OF assms(2)]) simp_all
  then show ?thesis
    by (simp add: d six_digit_randomNumber)
qed

theorem resendConfirmOtp_regenerates_witness:
  "reply (resendConfirmOtp (scenario_world True True) [jane\<lparr>confirmOTP := None\<rparr>] jane_resend)
     = Some (successResponse ''Confirm otp sent.'') \<and>
   six_digit ''654321'' \<and>
   outbox (resendConfirmOtp (scenario_world True True) [jane\<lparr>confirmOTP := None\<rparr>] jane_resend) =
     [\<lparr> mail_from = ''admin@x.com'', mail_to = ''jane@x.com'',
        mail_subject = ''Confirm Account'',
        mail_html = ''<p>Please Login your Account.</p><p>OTP: 654321</p>'' \<rparr>] \<and>
   findOne (\<lambda>u. email_id u = ''jane@x.com'')
     (db (resendConfirmOtp (scenario_world True True) [jane\<lparr>confirmOTP := None\<rparr>] jane_resend))
     = Some (jane\<lparr>isConfirmed := False\<rparr>)"
proof -
  let ?u = "jane\<lparr>confirmOTP := None\<rparr>"
  have f: "findOne (\<lambda>u. email_id u =
      body_field (sanitized (resendConfirmOtp_rules (scenario_world True True)) jane_resend)
        ''email_id'') [?u] = Some ?u"
    by (rule jane_resend_found) (simp add: jane_def)
  have m: "mailer_ok (scenario_world True True)" and o: "store_ok (scenario_world True True)"
    by (simp_all add: scenario_world_def)
  have r: "required_paths ?u"
    using jane_required by (simp add: required_paths_def)
  have u: "?u\<lparr>isConfirmed := False, confirmOTP := Some ''654321''\<rparr> = jane\<lparr>isConfirmed := False\<rparr>"
    by (simp add: jane_def)
  have k: "otp_mail (scenario_world True True) ''jane@x.com'' ''Please Login your Account.''
             ''654321'' =
           \<lparr> mail_from = ''admin@x.com'', mail_to = ''jane@x.com'',
             mail_subject = ''Confirm Account'',
             mail_html = ''<p>Please Login your Account.</p><p>OTP: 654321</p>'' \<rparr>"
    by (simp add: otp_mail_def scenario_world_def)
  show ?thesis
    using resendConfirmOtp_regenerates [OF jane_resend_valid f]
    by (simp add: jane_resend_email scenario_otp m o r u k)
qed

text \<open>
  C3 as stated fails where the save is rejected: the callback of \<^verbatim>\<open>user.save\<close> answers
  with \<^verbatim>\<open>ErrorResponse\<close>, and the account keeps \<^verbatim>\<open>isConfirmed\<close> true and its old code (here
  none).
\<close>

theorem resendConfirmOtp_save_failure_counterexample:
  "findOne (\<lambda>u. email_id u =
      body_field (sanitized (resendConfirmOtp_rules (scenario_world True False)) jane_resend)
        ''email_id'') [jane\<lparr>confirmOTP := None\<rparr>] = Some (jane\<lparr>confirmOTP := None\<rparr>) \<and>
   reply (resendConfirmOtp (scenario_world True False) [jane\<lparr>confirmOTP := None\<rparr>] jane_resend)
     = Some ErrorResponse \<and>
   db (resendConfirmOtp (scenario_world True False) [jane\<lparr>confirmOTP := None\<rparr>] jane_resend)
     = [jane\<lparr>confirmOTP := None\<rparr>] \<and>
   isConfirmed (jane\<lparr>confirmOTP := None\<rparr>)"
proof -
  let ?u = "jane\<lparr>confirmOTP := None\<rparr>"
  have f: "findOne (\<lambda>u. email_id u =
      body_field (sanitized (resendConfirmOtp_rules (scenario_world True False)) jane_resend)
        ''email_id'') [?u] = Some ?u"
    by (rule jane_resend_found) (simp add: jane_def)
  have m: "mailer_ok (scenario_world True False)"
    and o: "\<not> store_ok (scenario_world True False)"
    by (simp_all add: scenario_world_def)
  have i: "isConfirmed ?u"
    by (simp add: jane_def)
  show ?thesis
    using f i by (simp add: resendConfirmOtp_delivered [OF jane_resend_valid f m] o)
qed

subsection \<open>register\<close>

lemma register_delivered:
  assumes "validationResult (register_rules w store) b = []" and "mailer_ok w"
  shows "register w store b =
           (if required_paths (register_user w (sanitized (register_rules w store) b))
               \<and> store_ok w then
              \<lparr> reply = Some (successResponseWithData ''Registration Success.''
                    (register_userData
                       (register_user w (sanitized (register_rules w store) b)))),
                db = store @ [register_user w (sanitized (register_rules w store) b)],
                outbox = [otp_mail w
                            (body_field (sanitized (register_rules w store) b) ''email_id'')
                            ''Please Confirm your Account.'' (randomNumber 6 (math_random w))] \<rparr>
            else
              \<lparr> reply = Some ErrorResponse, db = store,
                outbox = [otp_mail w
                            (body_field (sanitized (register_rules w store) b) ''email_id'')
                            ''Please Confirm your Account.'' (randomNumber 6 (math_random w))] \<rparr>)"
  using assms by (simp add: register_def Let_def)

lemma register_rejected:
  assumes "validationResult (register_rules w store) b \<noteq> []"
  shows "register w store b =
           \<lparr> reply = Some (validationErrorWithData ''Validation Error.''
                       (validationResult (register_rules w store) b)),
             db = store, outbox = [] \<rparr>"
  using assms by (simp add: register_def Let_def)

lemma register_user_flags:
  "isConfirmed (register_user w req)"
  "confirmOTP (register_user w req) = Some (randomNumber 6 (math_random w))"
  by (simp_all add: register_user_def AdminSchema_def)

lemma jane_register_valid:
  "validationResult (register_rules (scenario_world m s) []) jane_register = []"
  by (simp add: register_valid_iff scenario isAlphanumeric_def is_alnum_def)

lemma jane_register_user:
  "register_user (scenario_world m s)
     (sanitized (register_rules (scenario_world m s) store) jane_register) = jane"
  by (simp add: register_user_def register_sanitized scenario_otp AdminSchema_def)
     (simp add: scenario)

text \<open>
  C1, as the code has it. For a register call that passes all validations and whose
  confirmation mail is delivered, the document the call saves is persisted exactly when
  the save succeeds (Mongoose finds the required paths, the store accepts the insert);
  it has a six-digit numeric \<^verbatim>\<open>confirmOTP\<close>, and its \<^verbatim>\<open>isConfirmed\<close> is the schema default,
  true: \<^verbatim>\<open>register\<close> does not set the path.
\<close>

theorem register_persisted_account:
  assumes "validationResult (register_rules w store) b = []" and "mailer_ok w"
  shows "db (register w store b) =
           (if required_paths (register_user w (sanitized (register_rules w store) b))
               \<and> store_ok w
            then store @ [register_user w (sanitized (register_rules w store) b)]
            else store) \<and>
         isConfirmed (register_user w (sanitized (register_rules w store) b)) \<and>
         confirmOTP (register_user w (sanitized (register_rules w store) b))
           = Some (randomNumber 6 (math_random w)) \<and>
         six_digit (randomNumber 6 (math_random w))"
  by (simp add: register_delivered [OF assms] register_user_flags six_digit_randomNumber)

theorem register_persisted_account_witness:
  "db (register (scenario_world True True) [] jane_register) = [jane] \<and>
   isConfirmed jane \<and> confirmOTP jane = Some ''654321'' \<and> six_digit ''654321''"
proof -
  have m: "mailer_ok (scenario_world True True)" and o: "store_ok (scenario_world True True)"
    by (simp_all add: scenario_world_def)
  show ?thesis
    using register_persisted_account [OF jane_register_valid m]
    by (simp add: jane_register_user jane_required o scenario_otp)
qed

text \<open>
  C1 as stated fails on the scenario of the spec: Jane's registration passes every
  validation, the mail is delivered, and the account persisted has \<^verbatim>\<open>isConfirmed\<close> true.
\<close>

theorem register_confirmed_counterexample:
  "validationResult (register_rules (scenario_world True True) []) jane_register = [] \<and>
   mailer_ok (scenario_world True True) \<and>
   db (register (scenario_world True True) [] jane_register) = [jane] \<and>
   isConfirmed jane"
proof -
  have m: "mailer_ok (scenario_world True True)" and o: "store_ok (scenario_world True True)"
    by (simp_all add: scenario_world_def)
  have "db (register (scenario_world True True) [] jane_register) = [jane]"
    by (simp add: register_delivered [OF jane_register_valid m] jane_register_user
          jane_required o)
  moreover have "isConfirmed jane"
    by (simp add: jane_def)
  ultimately show ?thesis
    using m by (simp add: jane_register_valid)
qed

text \<open>
  C8. When the sanitized email or the sanitized phone number of a register call is that
  of a document of the collection, the response is \<^verbatim>\<open>validationErrorWithData\<close> with the
  errors of all five chains, each evaluated on the request as it came in and none
  masking another; the message of each duplicate is among them. The collection is
  unchanged and no mail is sent.
\<close>

theorem register_duplicate:
  assumes "findOne (\<lambda>u. email_id u = escape (trim (body_field b ''email_id''))) store \<noteq> None \<or>
           findOne (\<lambda>u. phone_number u = escape (trim (body_field b ''phone_number''))) store
             \<noteq> None"
  shows "register w store b =
           \<lparr> reply = Some (validationErrorWithData ''Validation Error.''
                       (concat (map (\<lambda>c. chain_errors c b) (register_rules w store)))),
             db = store, outbox = [] \<rparr> \<and>
         (findOne (\<lambda>u. email_id u = escape (trim (body_field b ''email_id''))) store \<noteq> None \<longrightarrow>
            (''email_id'', ''E-mail already in use'')
              \<in> set (concat (map (\<lambda>c. chain_errors c b) (register_rules w store)))) \<and>
         (findOne (\<lambda>u. phone_number u = escape (trim (body_field b ''phone_number''))) store
            \<noteq> None \<longrightarrow>
            (''phone_number'', ''Phone number already in use'')
              \<in> set (concat (map (\<lambda>c. chain_errors c b) (register_rules w store))))"
proof -
  have e: "validationResult (register_rules w store) b =
             concat (map (\<lambda>c. chain_errors c b) (register_rules w store))"
    by (rule validationResult_concat [OF register_rules_distinct])
  have "validationResult (register_rules w store) b \<noteq> []"
    using assms by (auto simp: register_valid_iff)
  then have "register w store b =
           \<lparr> reply = Some (validationErrorWithData ''Validation Error.''
                       (concat (map (\<lambda>c. chain_errors c b) (register_rules w store)))),
             db = store, outbox = [] \<rparr>"
    by (simp add: register_rejected e)
  then show ?thesis
    using register_email_in_use register_phone_in_use by blast
qed

theorem register_duplicate_witness:
  "register (scenario_world True True) [jane] jane_register =
     \<lparr> reply = Some (validationErrorWithData ''Validation Error.''
         [(''email_id'', ''E-mail already in use''),
          (''phone_number'', ''Phone number already in use'')]),
       db = [jane], outbox = [] \<rparr>"
proof -
  have d: "findOne (\<lambda>u. email_id u = escape (trim (body_field jane_register ''email_id'')))
             [jane] \<noteq> None"
    by (simp add: scenario)
  have "concat (map (\<lambda>c. chain_errors c jane_register)
          (register_rules (scenario_world True True) [jane])) =
        [(''email_id'', ''E-mail already in use''),
         (''phone_number'', ''Phone number already in use'')]"
    by (simp add: register_rules_def chain_errors_def)
       (simp add: scenario isAlphanumeric_def is_alnum_def)
  then show ?thesis
    using register_duplicate [of jane_register "[jane]" "scenario_world True True"] d
    by simp
qed

subsection \<open>The frame of the three handlers that update\<close>






end
